theory Spec2Isabelle
  imports Main
begin

section \<open>The package module \<open>starlette_jhalog/__init__.py\<close>\<close>

text \<open>
  The module under verification is the package initialiser
  \<^verbatim>\<open>
  """Jhalog (JSON HTTP Access Log) middleware for Starlette/FastAPI."""
  from starlette_jhalog._middleware import JhalogMiddleware, get_logger
  from starlette_jhalog._exceptions import HTTPException

  __all__ = ("JhalogMiddleware", "HTTPException", "get_logger")
  \<close>
  Its body is four statements executed in order: the docstring is stored under
  \<open>__doc__\<close>, two \<open>from ... import ...\<close> statements run, and a tuple is stored under
  \<open>__all__\<close>. The embedding is an explicit state transformer for each statement; an
  exception is a value, and the state reached when it is raised is kept, since the
  interpreter keeps it too (\<open>sys.modules\<close> and the namespace of the abandoned module,
  which the traceback still references).
\<close>

subsection \<open>Values, namespaces, errors\<close>

text \<open>
  Objects defined by the internal submodules are opaque; all that matters here is their
  identity, a number as \<open>id()\<close> would give it. A submodule's namespace maps names to object
  identities. A value bound in the package namespace is a reference to such an object
  (\<open>Obj\<close>), a string or tuple literal of the package's own code, or a module object, which
  is identified by the dotted name it is registered under.
\<close>

type_synonym obj_id = nat

type_synonym module_dict = "string \<rightharpoonup> obj_id"

datatype pyval = Obj obj_id | Str string | Tuple "pyval list" | Module string

type_synonym namespace = "string \<rightharpoonup> pyval"

text \<open>
  The exceptions an import statement can end with: the module is not found, the module
  has no attribute of the requested name (\<open>ImportError name module\<close>: cannot import
  \<open>name\<close> from \<open>module\<close>), or the body of the module being loaded raised an exception of
  its own, which propagates as it is (\<open>SubmoduleRaised module exception\<close>).
\<close>

datatype error =
    ModuleNotFoundError string
  | ImportError string string
  | SubmoduleRaised string nat

text \<open>
  The two submodules \<open>_middleware\<close> and \<open>_exceptions\<close> are not part of the file, so what
  the import system's finder and loader do for a dotted module name is a parameter: the
  module is absent, its body raises, or it loads and defines a namespace. The submodules
  are taken to be plain modules, and loading one has no effect on the state other than
  its own registration.
\<close>

datatype load_outcome = Absent | Fails nat | Defines module_dict

type_synonym env = "string \<Rightarrow> load_outcome"

text \<open>
  The interpreter state the module body acts on: \<open>sys_modules\<close> is the registry of the
  internal submodules that are already loaded, \<open>package_loaded\<close> says whether the package
  itself is registered there, \<open>globals\<close> is the namespace of the package module (the
  \<open>__dict__\<close> its body executes in), and \<open>import_log\<close> records, in order, the module name
  of every import statement that was executed.
\<close>

record state =
  sys_modules :: "string \<rightharpoonup> module_dict"
  package_loaded :: bool
  globals :: namespace
  import_log :: "string list"

type_synonym stmt = "state \<Rightarrow> error option \<times> state"

subsection \<open>The import statement\<close>

definition pkg :: string where
  "pkg = ''starlette_jhalog''"

text \<open>\<open>name.rpartition('.')\<close>: the parent package and the final component of a dotted name.\<close>

definition parent_name :: "string \<Rightarrow> string" where
  "parent_name full = rev (drop 1 (dropWhile (\<lambda>c. c \<noteq> CHR ''.'') (rev full)))"

definition child_name :: "string \<Rightarrow> string" where
  "child_name full = rev (takeWhile (\<lambda>c. c \<noteq> CHR ''.'') (rev full))"

text \<open>
  Finding and loading a module that is not in \<open>sys.modules\<close>. When the load succeeds the
  module is registered and, its parent being the package, bound as an attribute of the
  package under its final name component. A failed load registers and binds nothing.
\<close>

definition find_and_load :: "env \<Rightarrow> string \<Rightarrow> state \<Rightarrow> (error + module_dict) \<times> state" where
  "find_and_load env full st =
     (case env full of
        Absent \<Rightarrow> (Inl (ModuleNotFoundError full), st)
      | Fails e \<Rightarrow> (Inl (SubmoduleRaised full e), st)
      | Defines m \<Rightarrow>
          (Inr m,
           st\<lparr>sys_modules := (sys_modules st)(full \<mapsto> m),
              globals := (if parent_name full = pkg
                          then (globals st)(child_name full \<mapsto> Module full)
                          else globals st)\<rparr>))"

text \<open>
  \<open>IMPORT_NAME\<close>: the module registry is consulted first; a module found there is used as
  it is (it is not loaded again and no attribute is bound on its parent), otherwise the
  module is found and loaded.
\<close>

definition import_name :: "env \<Rightarrow> string \<Rightarrow> state \<Rightarrow> (error + module_dict) \<times> state" where
  "import_name env full st =
     (let st1 = st\<lparr>import_log := import_log st @ [full]\<rparr>
      in case sys_modules st1 full of
           Some m \<Rightarrow> (Inr m, st1)
         | None \<Rightarrow> find_and_load env full st1)"

text \<open>
  \<open>IMPORT_FROM name; STORE_NAME name\<close>: the attribute is read from the module and the
  same object is bound under the same name in the importing namespace.
\<close>

definition import_from :: "string \<Rightarrow> module_dict \<Rightarrow> string \<Rightarrow> stmt" where
  "import_from full m n st =
     (case m n of
        None \<Rightarrow> (Some (ImportError n full), st)
      | Some i \<Rightarrow> (None, st\<lparr>globals := (globals st)(n \<mapsto> Obj i)\<rparr>))"

text \<open>The names of one import statement are bound one after the other, left to right.\<close>

fun import_names :: "string \<Rightarrow> module_dict \<Rightarrow> string list \<Rightarrow> stmt" where
  "import_names full m [] st = (None, st)"
| "import_names full m (n # ns) st =
     (case import_from full m n st of
        (None, st') \<Rightarrow> import_names full m ns st'
      | (Some e, st') \<Rightarrow> (Some e, st'))"

text \<open>\<open>from full import n1, n2, ...\<close>\<close>

definition from_import :: "env \<Rightarrow> string \<Rightarrow> string list \<Rightarrow> stmt" where
  "from_import env full names st =
     (case import_name env full st of
        (Inl e, st') \<Rightarrow> (Some e, st')
      | (Inr m, st') \<Rightarrow> import_names full m names st')"

text \<open>\<open>name = value\<close> at module level.\<close>

definition store_name :: "string \<Rightarrow> pyval \<Rightarrow> stmt" where
  "store_name n v st = (None, st\<lparr>globals := (globals st)(n \<mapsto> v)\<rparr>)"

text \<open>Sequencing: the second statement runs only when the first raised nothing.\<close>

definition and_then :: "stmt \<Rightarrow> stmt \<Rightarrow> stmt" where
  "and_then f g st =
     (case f st of
        (None, st') \<Rightarrow> g st'
      | (Some e, st') \<Rightarrow> (Some e, st'))"

subsection \<open>The module body\<close>

definition docstring :: string where
  "docstring = ''Jhalog (JSON HTTP Access Log) middleware for Starlette/FastAPI.''"

text \<open>The tuple literal assigned to \<open>__all__\<close>.\<close>

definition dunder_all :: "string list" where
  "dunder_all = [''JhalogMiddleware'', ''HTTPException'', ''get_logger'']"

definition module_body :: "env \<Rightarrow> stmt" where
  "module_body env =
     and_then (store_name ''__doc__'' (Str docstring))
    (and_then (from_import env ''starlette_jhalog._middleware''
                 [''JhalogMiddleware'', ''get_logger''])
    (and_then (from_import env ''starlette_jhalog._exceptions'' [''HTTPException''])
              (store_name ''__all__'' (Tuple (map Str dunder_all)))))"


subsection \<open>Vocabulary of the statements\<close>

abbreviation mid :: string where
  "mid \<equiv> ''starlette_jhalog._middleware''"

abbreviation exc :: string where
  "exc \<equiv> ''starlette_jhalog._exceptions''"

text \<open>
  What an import of \<open>full\<close> resolves to in a state: the registered module if there is one,
  otherwise what the finder and loader yield.
\<close>

definition resolve :: "env \<Rightarrow> state \<Rightarrow> string \<Rightarrow> load_outcome" where
  "resolve env st full =
     (case sys_modules st full of Some m \<Rightarrow> Defines m | None \<Rightarrow> env full)"

text \<open>A module resolves and defines every name of a list.\<close>

fun provides :: "load_outcome \<Rightarrow> string list \<Rightarrow> bool" where
  "provides (Defines m) names = list_all (\<lambda>n. m n \<noteq> None) names"
| "provides _ names = False"

subsection \<open>The states an import leaves\<close>

text \<open>
  The state after the import system has delivered module \<open>m\<close> for the name \<open>full\<close>, a
  direct submodule of the package: the import is logged, the module is registered, and
  the parent attribute is bound unless the module was registered before.
\<close>

definition after_import :: "state \<Rightarrow> string \<Rightarrow> module_dict \<Rightarrow> state" where
  "after_import st full m =
     st\<lparr>import_log := import_log st @ [full],
        sys_modules := (sys_modules st)(full \<mapsto> m),
        globals := (if full \<in> dom (sys_modules st) then globals st
                    else (globals st)(child_name full \<mapsto> Module full))\<rparr>"

text \<open>
  The state a complete run of the body leaves, given the two modules and the identities
  of the three objects read from them.
\<close>

definition loaded_state ::
  "state \<Rightarrow> module_dict \<Rightarrow> module_dict \<Rightarrow> obj_id \<Rightarrow> obj_id \<Rightarrow> obj_id \<Rightarrow> state" where
  "loaded_state st m1 m2 i j k =
    (let s1 = st\<lparr>globals := (globals st)(''__doc__'' \<mapsto> Str docstring)\<rparr>;
         s2 = after_import s1 mid m1;
         s3 = s2\<lparr>globals := (globals s2)(''JhalogMiddleware'' \<mapsto> Obj i,
                                            ''get_logger'' \<mapsto> Obj j)\<rparr>;
         s4 = after_import s3 exc m2;
         s5 = s4\<lparr>globals := (globals s4)(''HTTPException'' \<mapsto> Obj k)\<rparr>
     in s5\<lparr>globals := (globals s5)(''__all__'' \<mapsto> Tuple (map Str dunder_all))\<rparr>)"

subsection \<open>Sample environments\<close>

text \<open>
  Two submodules that define the names the package imports. Each also defines, as a
  different object, a name that the package takes from the other one.
\<close>

definition middleware_module :: module_dict where
  "middleware_module =
     [''JhalogMiddleware'' \<mapsto> 11, ''get_logger'' \<mapsto> 12, ''HTTPException'' \<mapsto> 13]"

definition exceptions_module :: module_dict where
  "exceptions_module = [''HTTPException'' \<mapsto> 21, ''get_logger'' \<mapsto> 22]"

definition sample_env :: env where
  "sample_env full =
     (if full = mid then Defines middleware_module
      else if full = exc then Defines exceptions_module
      else Absent)"





text \<open>An interpreter in which nothing of the package has been imported yet.\<close>

definition fresh :: state where
  "fresh = \<lparr>sys_modules = Map.empty, package_loaded = False,
            globals = Map.empty, import_log = []\<rparr>"

text \<open>
  An interpreter in which both submodules are registered but the package is not, as
  after an earlier import of the package was abandoned or its registry entry deleted.
\<close>

definition preloaded :: state where
  "preloaded = \<lparr>sys_modules = [mid \<mapsto> middleware_module, exc \<mapsto> exceptions_module],
                package_loaded = False, globals = Map.empty, import_log = []\<rparr>"

section \<open>Auxiliary facts\<close>

lemma child_mid: "child_name mid = ''_middleware''"
  by (simp add: child_name_def)

lemma child_exc: "child_name exc = ''_exceptions''"
  by (simp add: child_name_def)

lemma parent_mid: "parent_name mid = pkg"
  by (simp add: parent_name_def pkg_def)

lemma parent_exc: "parent_name exc = pkg"
  by (simp add: parent_name_def pkg_def)

subsection \<open>The import statement, by what the module resolves to\<close>

lemma from_import_resolved:
  assumes "parent_name full = pkg"
  shows "from_import env full names st =
     (case resolve env st full of
        Absent \<Rightarrow>
          (Some (ModuleNotFoundError full), st\<lparr>import_log := import_log st @ [full]\<rparr>)
      | Fails e \<Rightarrow>
          (Some (SubmoduleRaised full e), st\<lparr>import_log := import_log st @ [full]\<rparr>)
      | Defines m \<Rightarrow> import_names full m names (after_import st full m))"
proof (cases "sys_modules st full")
  case None
  then show ?thesis using assms
    by (cases "env full")
       (simp_all add: from_import_def import_name_def find_and_load_def resolve_def Let_def
          after_import_def domIff)
next
  case (Some m)
  then show ?thesis
    by (simp add: from_import_def import_name_def resolve_def Let_def after_import_def
          map_upd_triv domI)
qed

lemma resolve_store [simp]: "resolve env (st\<lparr>globals := g\<rparr>) full = resolve env st full"
  by (simp add: resolve_def)

lemma resolve_after_import [simp]:
  "full' \<noteq> full \<Longrightarrow> resolve env (after_import st full m) full' = resolve env st full'"
  by (simp add: resolve_def after_import_def)

lemma provides_two:
  "provides r [a, b] \<longleftrightarrow> (\<exists>m i j. r = Defines m \<and> m a = Some i \<and> m b = Some j)"
  by (cases r) auto

lemma provides_one:
  "provides r [a] \<longleftrightarrow> (\<exists>m i. r = Defines m \<and> m a = Some i)"
  by (cases r) auto

subsection \<open>What an import statement logs and when it succeeds\<close>

lemma import_names_ok_iff:
  "fst (import_names full m names st) = None \<longleftrightarrow> list_all (\<lambda>n. m n \<noteq> None) names"
  by (induction names arbitrary: st) (auto simp: import_from_def split: option.splits)

lemma from_import_ok_iff:
  "fst (from_import env full names st) = None \<longleftrightarrow> provides (resolve env st full) names"
  by (cases "sys_modules st full"; cases "env full")
     (simp_all add: from_import_def import_name_def find_and_load_def resolve_def Let_def
        import_names_ok_iff)

lemma import_names_import_log:
  "import_log (snd (import_names full m names st)) = import_log st"
  by (induction names arbitrary: st) (auto simp: import_from_def split: option.splits)

lemma from_import_import_log:
  "import_log (snd (from_import env full names st)) = import_log st @ [full]"
  by (cases "sys_modules st full"; cases "env full")
     (simp_all add: from_import_def import_name_def find_and_load_def Let_def
        import_names_import_log)

lemma from_import_cong_env:
  "env' full = env full \<Longrightarrow> from_import env' full = from_import env full"
  by (intro ext)
     (simp add: from_import_def import_name_def find_and_load_def Let_def split: option.splits)

subsection \<open>The module body, by cases\<close>

lemma module_body_unfold:
  "module_body env st =
    (case from_import env mid [''JhalogMiddleware'', ''get_logger'']
            (st\<lparr>globals := (globals st)(''__doc__'' \<mapsto> Str docstring)\<rparr>) of
       (Some e, s) \<Rightarrow> (Some e, s)
     | (None, s) \<Rightarrow>
         (case from_import env exc [''HTTPException''] s of
            (Some e, s') \<Rightarrow> (Some e, s')
          | (None, s') \<Rightarrow>
              (None, s'\<lparr>globals := (globals s')(''__all__'' \<mapsto> Tuple (map Str dunder_all))\<rparr>)))"
  by (simp add: module_body_def and_then_def store_name_def split: prod.splits option.splits)

lemma module_body_success:
  assumes "resolve env st mid = Defines m1" "resolve env st exc = Defines m2"
    "m1 ''JhalogMiddleware'' = Some i" "m1 ''get_logger'' = Some j"
    "m2 ''HTTPException'' = Some k"
  shows "module_body env st = (None, loaded_state st m1 m2 i j k)"
  using assms
  by (simp add: module_body_unfold from_import_resolved parent_mid parent_exc import_from_def
        loaded_state_def Let_def)

lemma module_body_success_iff:
  "fst (module_body env st) = None \<longleftrightarrow>
     provides (resolve env st mid) [''JhalogMiddleware'', ''get_logger''] \<and>
     provides (resolve env st exc) [''HTTPException'']"
  unfolding provides_two provides_one
  by (simp add: module_body_unfold from_import_resolved parent_mid parent_exc import_from_def
        split: load_outcome.splits option.splits prod.splits)

lemma module_body_successE:
  assumes "fst (module_body env st) = None"
  obtains m1 m2 i j k where
    "resolve env st mid = Defines m1" "resolve env st exc = Defines m2"
    "m1 ''JhalogMiddleware'' = Some i" "m1 ''get_logger'' = Some j"
    "m2 ''HTTPException'' = Some k"
    "module_body env st = (None, loaded_state st m1 m2 i j k)"
proof -
  from assms obtain m1 m2 i j k where r:
    "resolve env st mid = Defines m1" "resolve env st exc = Defines m2"
    "m1 ''JhalogMiddleware'' = Some i" "m1 ''get_logger'' = Some j"
    "m2 ''HTTPException'' = Some k"
    unfolding module_body_success_iff provides_two provides_one by blast
  from module_body_success[OF r] r that show thesis by blast
qed



lemma module_body_stops:
  assumes "\<not> provides (resolve env st mid) [''JhalogMiddleware'', ''get_logger'']"
  shows "module_body env st =
     from_import env mid [''JhalogMiddleware'', ''get_logger'']
       (st\<lparr>globals := (globals st)(''__doc__'' \<mapsto> Str docstring)\<rparr>)"
proof -
  let ?r = "from_import env mid [''JhalogMiddleware'', ''get_logger'']
       (st\<lparr>globals := (globals st)(''__doc__'' \<mapsto> Str docstring)\<rparr>)"
  from assms have "fst ?r \<noteq> None"
    by (simp add: from_import_ok_iff)
  then obtain e s where "?r = (Some e, s)"
    by (cases ?r) auto
  then show ?thesis
    by (simp add: module_body_unfold)
qed

lemma module_body_continues:
  assumes "provides (resolve env st mid) [''JhalogMiddleware'', ''get_logger'']"
  shows "module_body env st =
     and_then (from_import env exc [''HTTPException''])
              (store_name ''__all__'' (Tuple (map Str dunder_all)))
       (snd (from_import env mid [''JhalogMiddleware'', ''get_logger'']
               (st\<lparr>globals := (globals st)(''__doc__'' \<mapsto> Str docstring)\<rparr>)))"
proof -
  let ?r = "from_import env mid [''JhalogMiddleware'', ''get_logger'']
       (st\<lparr>globals := (globals st)(''__doc__'' \<mapsto> Str docstring)\<rparr>)"
  from assms have "fst ?r = None"
    by (simp add: from_import_ok_iff)
  then obtain s where "?r = (None, s)"
    by (cases ?r) auto
  then show ?thesis
    by (simp add: module_body_def and_then_def store_name_def)
qed

lemma and_then_store_import_log:
  "import_log (snd (and_then (from_import env full names) (store_name n v) st)) =
     import_log st @ [full]"
proof -
  obtain r s where rs: "from_import env full names st = (r, s)"
    by (cases "from_import env full names st")
  with from_import_import_log[of env full names st] have "import_log s = import_log st @ [full]"
    by simp
  with rs show ?thesis
    by (cases r) (simp_all add: and_then_def store_name_def)
qed

lemma module_body_import_log:
  "import_log (snd (module_body env st)) =
     (if provides (resolve env st mid) [''JhalogMiddleware'', ''get_logger'']
      then import_log st @ [mid, exc] else import_log st @ [mid])"
  by (simp add: module_body_stops module_body_continues from_import_import_log
        and_then_store_import_log)

lemma module_body_cong_env:
  assumes "env' mid = env mid" "env' exc = env exc"
  shows "module_body env' st = module_body env st"
proof -
  have "from_import env' mid = from_import env mid"
    using assms(1) by (rule from_import_cong_env)
  moreover have "from_import env' exc = from_import env exc"
    using assms(2) by (rule from_import_cong_env)
  ultimately show ?thesis
    by (simp only: module_body_def)
qed



subsection \<open>The state after a complete run\<close>

lemma loaded_globals:
  "globals (loaded_state st m1 m2 i j k) =
     (\<lambda>n. if n = ''__all__'' then Some (Tuple (map Str dunder_all))
          else if n = ''HTTPException'' then Some (Obj k)
          else if n = ''_exceptions'' \<and> exc \<notin> dom (sys_modules st) then Some (Module exc)
          else if n = ''get_logger'' then Some (Obj j)
          else if n = ''JhalogMiddleware'' then Some (Obj i)
          else if n = ''_middleware'' \<and> mid \<notin> dom (sys_modules st) then Some (Module mid)
          else if n = ''__doc__'' then Some (Str docstring)
          else globals st n)"
  by (rule ext) (simp add: loaded_state_def after_import_def Let_def child_mid child_exc)



subsection \<open>Runs in the sample environments\<close>

lemma resolve_sample_fresh:
  "resolve sample_env fresh mid = Defines middleware_module"
  "resolve sample_env fresh exc = Defines exceptions_module"
  by (simp_all add: resolve_def sample_env_def fresh_def)

lemma resolve_sample_preloaded:
  "resolve sample_env preloaded mid = Defines middleware_module"
  "resolve sample_env preloaded exc = Defines exceptions_module"
  by (simp_all add: resolve_def preloaded_def)

lemma sample_load:
  "module_body sample_env fresh =
     (None, loaded_state fresh middleware_module exceptions_module 11 12 21)"
  by (rule module_body_success[OF resolve_sample_fresh])
     (simp_all add: middleware_module_def exceptions_module_def)

lemma preloaded_load:
  "module_body sample_env preloaded =
     (None, loaded_state preloaded middleware_module exceptions_module 11 12 21)"
  by (rule module_body_success[OF resolve_sample_preloaded])
     (simp_all add: middleware_module_def exceptions_module_def)




section \<open>The claims\<close>











text \<open>
  C6. The body imports from exactly two modules, \<open>starlette_jhalog._middleware\<close> and
  \<open>starlette_jhalog._exceptions\<close>: a complete run performs these two imports, in this
  order, and no other; a run that stops early performs only the first; and what any
  other module name resolves to has no influence on the run.
\<close>

theorem imports_exactly_two_submodules:
  "(fst (module_body env st) = None \<longrightarrow>
      import_log (snd (module_body env st)) = import_log st @ [mid, exc]) \<and>
   (import_log (snd (module_body env st)) = import_log st @ [mid] \<or>
    import_log (snd (module_body env st)) = import_log st @ [mid, exc]) \<and>
   (env' mid = env mid \<and> env' exc = env exc \<longrightarrow> module_body env' st = module_body env st)"
proof (intro conjI impI)
  assume "fst (module_body env st) = None"
  then show "import_log (snd (module_body env st)) = import_log st @ [mid, exc]"
    by (simp add: module_body_import_log module_body_success_iff)
next
  show "import_log (snd (module_body env st)) = import_log st @ [mid] \<or>
    import_log (snd (module_body env st)) = import_log st @ [mid, exc]"
    by (simp add: module_body_import_log)
next
  assume "env' mid = env mid \<and> env' exc = env exc"
  then show "module_body env' st = module_body env st"
    by (intro module_body_cong_env) simp_all
qed

theorem imports_exactly_two_submodules_witness:
  "fst (module_body sample_env fresh) = None \<and>
   import_log (snd (module_body sample_env fresh)) = [mid, exc] \<and>
   (sample_env(''os'' := Fails 1)) mid = sample_env mid \<and>
   (sample_env(''os'' := Fails 1)) exc = sample_env exc \<and>
   module_body (sample_env(''os'' := Fails 1)) fresh = module_body sample_env fresh"
proof -
  have ok: "fst (module_body sample_env fresh) = None"
    by (simp add: sample_load)
  have e: "(sample_env(''os'' := Fails 1)) mid = sample_env mid"
    "(sample_env(''os'' := Fails 1)) exc = sample_env exc"
    by simp_all
  have l: "import_log fresh = []"
    by (simp add: fresh_def)
  from imports_exactly_two_submodules[of sample_env fresh "sample_env(''os'' := Fails 1)"]
    ok e l
  show ?thesis by simp
qed




text \<open>
  C8, as stated: after a successful load the attributes \<open>_middleware\<close> and \<open>_exceptions\<close>
  are bound in the package namespace. This fails when the submodules are already
  registered in \<open>sys.modules\<close> while the package is not (an earlier import of the package
  was abandoned after its submodules had loaded, or the package's registry entry was
  deleted): the import statement takes a registered module from the registry, and the
  attribute on the parent package is bound only by the loading of a submodule.
\<close>

theorem submodule_attributes_counterexample:
  "fst (module_body sample_env preloaded) = None \<and>
   globals (snd (module_body sample_env preloaded)) ''_middleware'' = None \<and>
   globals (snd (module_body sample_env preloaded)) ''_exceptions'' = None"
  by (simp add: preloaded_load loaded_globals) (simp add: preloaded_def)

text \<open>
  C8, amended: after a successful load the package namespace holds, in addition to the
  three re-exported names, the docstring under \<open>__doc__\<close> and, for each of the two
  submodules that was not registered in \<open>sys.modules\<close> before the load, the attribute
  \<open>_middleware\<close> or \<open>_exceptions\<close> bound to that module; so the namespace is always
  strictly larger than the export list.
\<close>

theorem namespace_beyond_exports:
  assumes "fst (module_body env st) = None"
  shows "(mid \<notin> dom (sys_modules st) \<longrightarrow>
            globals (snd (module_body env st)) ''_middleware'' = Some (Module mid)) \<and>
         (exc \<notin> dom (sys_modules st) \<longrightarrow>
            globals (snd (module_body env st)) ''_exceptions'' = Some (Module exc)) \<and>
         globals (snd (module_body env st)) ''__doc__'' = Some (Str docstring) \<and>
         set dunder_all \<subset> dom (globals (snd (module_body env st)))"
proof -
  from assms obtain m1 m2 i j k where r:
    "module_body env st = (None, loaded_state st m1 m2 i j k)"
    by (rule module_body_successE)
  have "''__doc__'' \<notin> set dunder_all"
    by (simp add: dunder_all_def)
  moreover have "''__doc__'' \<in> dom (globals (loaded_state st m1 m2 i j k))"
    by (simp add: loaded_globals domIff)
  moreover have "set dunder_all \<subseteq> dom (globals (loaded_state st m1 m2 i j k))"
    by (simp add: loaded_globals domIff dunder_all_def)
  ultimately have "set dunder_all \<subset> dom (globals (loaded_state st m1 m2 i j k))"
    by blast
  then show ?thesis
    unfolding r snd_conv by (simp add: loaded_globals)
qed

theorem namespace_beyond_exports_witness:
  "fst (module_body sample_env fresh) = None \<and>
   mid \<notin> dom (sys_modules fresh) \<and> exc \<notin> dom (sys_modules fresh) \<and>
   globals (snd (module_body sample_env fresh)) ''_middleware'' = Some (Module mid) \<and>
   globals (snd (module_body sample_env fresh)) ''_exceptions'' = Some (Module exc) \<and>
   globals (snd (module_body sample_env fresh)) ''__doc__'' = Some (Str docstring) \<and>
   set dunder_all \<subset> dom (globals (snd (module_body sample_env fresh)))"
proof -
  have ok: "fst (module_body sample_env fresh) = None"
    by (simp add: sample_load)
  have f: "mid \<notin> dom (sys_modules fresh)" "exc \<notin> dom (sys_modules fresh)"
    by (simp_all add: fresh_def)
  from namespace_beyond_exports[OF ok] ok f show ?thesis by simp
qed




text \<open>
  C10. After every successful load the value bound to \<open>__all__\<close> is the tuple of the
  export list, every name of the export list is bound in the package namespace, and the
  export list has no duplicate.
\<close>

theorem exports_are_bound:
  assumes "fst (module_body env st) = None"
  shows "globals (snd (module_body env st)) ''__all__'' = Some (Tuple (map Str dunder_all)) \<and>
         set dunder_all \<subseteq> dom (globals (snd (module_body env st))) \<and>
         distinct dunder_all"
proof -
  from assms obtain m1 m2 i j k where r:
    "module_body env st = (None, loaded_state st m1 m2 i j k)"
    by (rule module_body_successE)
  show ?thesis
    unfolding r snd_conv loaded_globals
    by (simp add: dunder_all_def domIff)
qed

theorem exports_are_bound_witness:
  "fst (module_body sample_env fresh) = None \<and>
   globals (snd (module_body sample_env fresh)) ''__all__''
     = Some (Tuple [Str ''JhalogMiddleware'', Str ''HTTPException'', Str ''get_logger'']) \<and>
   {''JhalogMiddleware'', ''HTTPException'', ''get_logger''}
     \<subseteq> dom (globals (snd (module_body sample_env fresh))) \<and>
   distinct dunder_all"
proof -
  have ok: "fst (module_body sample_env fresh) = None"
    by (simp add: sample_load)
  from exports_are_bound[OF ok] ok show ?thesis
    by (simp add: dunder_all_def)
qed

end
